theory Spec2Isabelle
  imports Complex_Main
begin

section \<open>Python values used by sysmon.py\<close>

text \<open>
  The monitor is one Python file, \<^verbatim>\<open>sysmon.py\<close>. Its integers are unbounded
  (\<^typ>\<open>int\<close>). Its floats are modelled by exact rationals (\<^typ>\<open>rat\<close>): every
  binary64 value is a rational, and the arithmetic below is carried out exactly, so the
  rounding and the overflow of binary64 are not part of the model. Every exception the
  code can raise on its inputs is a value of \<open>error\<close>, and a computation that may
  raise has type \<open>error + 'a\<close>.

  The kernel files are modelled after decoding: a file is the list of lines that
  iterating over the text-mode file object yields, and a line is a \<^typ>\<open>string\<close> whose
  characters are the code points below 256. Opening the files and calling
  \<^verbatim>\<open>os.statvfs\<close> are taken to succeed. The f-string that formats the seven numbers
  of an iteration into the output line is not modelled: an iteration yields the numbers,
  and the truncation step takes the formatted line as its input.
\<close>

datatype error = IndexError | ValueError | ZeroDivisionError

definition and_then :: "error + 'a \<Rightarrow> ('a \<Rightarrow> error + 'b) \<Rightarrow> error + 'b" where
  "and_then m f = (case m of Inl e \<Rightarrow> Inl e | Inr x \<Rightarrow> f x)"

text \<open>A \<^verbatim>\<open>for\<close> loop over a list that threads its loop variables and stops at the
  first exception.\<close>

fun for_each :: "('s \<Rightarrow> 'a \<Rightarrow> error + 's) \<Rightarrow> 's \<Rightarrow> 'a list \<Rightarrow> error + 's" where
  "for_each body s [] = Inr s"
| "for_each body s (x # xs) =
     (case body s x of Inl e \<Rightarrow> Inl e | Inr s' \<Rightarrow> for_each body s' xs)"

text \<open>\<^verbatim>\<open>xs[i]\<close> for a literal index \<open>i \<ge> 0\<close>: IndexError out of range.\<close>

definition py_index :: "'a list \<Rightarrow> nat \<Rightarrow> error + 'a" where
  "py_index xs i = (if i < length xs then Inr (xs ! i) else Inl IndexError)"

text \<open>\<^verbatim>\<open>a / b\<close>, true division: ZeroDivisionError on a zero divisor.\<close>

definition py_truediv :: "rat \<Rightarrow> rat \<Rightarrow> error + rat" where
  "py_truediv a b = (if b = 0 then Inl ZeroDivisionError else Inr (a / b))"

text \<open>The characters \<^verbatim>\<open>str.split()\<close> and \<^verbatim>\<open>str.strip()\<close> treat as whitespace,
  among the code points below 256: 0x09-0x0D, 0x1C-0x20, 0x85 and 0xA0.\<close>

definition py_isspace :: "char \<Rightarrow> bool" where
  "py_isspace c = (let n = (of_char c :: nat) in
     (9 \<le> n \<and> n \<le> 13) \<or> (28 \<le> n \<and> n \<le> 32) \<or> n = 133 \<or> n = 160)"

text \<open>\<^verbatim>\<open>s.split()\<close>: the maximal runs of non-whitespace characters, in order.
  The first argument of \<open>split_from\<close> is the run read so far.\<close>

fun split_from :: "string \<Rightarrow> string \<Rightarrow> string list" where
  "split_from w [] = (if w = [] then [] else [w])"
| "split_from w (c # cs) =
     (if py_isspace c then (if w = [] then split_from [] cs else w # split_from [] cs)
      else split_from (w @ [c]) cs)"

definition py_split :: "string \<Rightarrow> string list" where
  "py_split s = split_from [] s"

text \<open>\<^verbatim>\<open>s.strip()\<close>.\<close>

definition py_strip :: "string \<Rightarrow> string" where
  "py_strip s = rev (dropWhile py_isspace (rev (dropWhile py_isspace s)))"

text \<open>\<^verbatim>\<open>s.split(':', 1)\<close>: at most one split, at the first colon.\<close>

definition py_split_colon :: "string \<Rightarrow> string list" where
  "py_split_colon s =
     (if CHR '':'' \<in> set s
      then [takeWhile (\<lambda>c. c \<noteq> CHR '':'') s, tl (dropWhile (\<lambda>c. c \<noteq> CHR '':'') s)]
      else [s])"

text \<open>\<^verbatim>\<open>name.startswith((p1, p2, ...))\<close>.\<close>

definition py_startswith :: "string \<Rightarrow> string list \<Rightarrow> bool" where
  "py_startswith s ps = (\<exists>p \<in> set ps. take (length p) s = p)"

text \<open>
  \<^verbatim>\<open>int(s)\<close> in base 10: an optional sign, then decimal digits, single underscores
  allowed between two digits; ValueError otherwise, and ValueError above the
  interpreter's default limit of 4300 digits. The program applies \<^verbatim>\<open>int\<close> only to
  fields produced by \<^verbatim>\<open>split()\<close>, which hold no whitespace, so the stripping of
  surrounding whitespace that \<^verbatim>\<open>int\<close> performs is left out.
\<close>

definition is_digit :: "char \<Rightarrow> bool" where
  "is_digit c = (let n = (of_char c :: nat) in 48 \<le> n \<and> n \<le> 57)"

definition digit_val :: "char \<Rightarrow> int" where
  "digit_val c = int (of_char c) - 48"

text \<open>The flag says whether the previous character was a digit.\<close>

fun int_digits :: "bool \<Rightarrow> int \<Rightarrow> string \<Rightarrow> int option" where
  "int_digits prev_digit acc [] = (if prev_digit then Some acc else None)"
| "int_digits prev_digit acc (c # cs) =
     (if is_digit c then int_digits True (10 * acc + digit_val c) cs
      else if c = CHR ''_'' \<and> prev_digit then int_digits False acc cs
      else None)"

definition py_int :: "string \<Rightarrow> error + int" where
  "py_int s =
     (let (neg, body) =
        (case s of
           [] \<Rightarrow> (False, s)
         | c # cs \<Rightarrow> if c = CHR ''-'' then (True, cs)
                     else if c = CHR ''+'' then (False, cs) else (False, s))
      in if length (filter is_digit body) > 4300 then Inl ValueError
         else case int_digits False 0 body of
                None \<Rightarrow> Inl ValueError
              | Some n \<Rightarrow> Inr (if neg then - n else n))"

text \<open>\<^verbatim>\<open>list(map(int, xs))\<close>: the first field that is no integer raises.\<close>

fun map_int :: "string list \<Rightarrow> error + int list" where
  "map_int [] = Inr []"
| "map_int (x # xs) =
     (case py_int x of
        Inl e \<Rightarrow> Inl e
      | Inr v \<Rightarrow> (case map_int xs of Inl e \<Rightarrow> Inl e | Inr vs \<Rightarrow> Inr (v # vs)))"

text \<open>\<^verbatim>\<open>f.readline()\<close> on the lines still unread: the next line, or the empty
  string at the end of the file.\<close>

definition readline :: "string list \<Rightarrow> string \<times> string list" where
  "readline ls = (case ls of [] \<Rightarrow> ([], []) | l # rest \<Rightarrow> (l, rest))"

text \<open>\<^verbatim>\<open>xs[:k]\<close>: a negative bound counts from the end, and the slice is clipped
  to the list.\<close>

definition py_slice_to :: "'a list \<Rightarrow> int \<Rightarrow> 'a list" where
  "py_slice_to xs k =
     (if k < 0 then take (nat (int (length xs) + k)) xs else take (nat k) xs)"

section \<open>The sources\<close>

subsection \<open>\<^verbatim>\<open>read_cpu_times\<close>\<close>

definition read_cpu_times :: "string list \<Rightarrow> error + (int \<times> int)" where
  "read_cpu_times stat =
     (let fields = py_split (fst (readline stat)) in
      and_then (map_int (take 7 (drop 1 fields))) (\<lambda>vals.
      and_then (py_index vals 3) (\<lambda>idle.
      Inr (idle, sum_list vals))))"

subsection \<open>\<^verbatim>\<open>read_mem_percent\<close>\<close>

definition read_mem_percent :: "string list \<Rightarrow> error + rat" where
  "read_mem_percent meminfo =
     (let (total_line, rest) = readline meminfo;
          (free_line, rest') = readline rest in
      and_then (py_index (py_split total_line) 1) (\<lambda>t.
      and_then (py_int t) (\<lambda>total.
      and_then (py_index (py_split free_line) 1) (\<lambda>f.
      and_then (py_int f) (\<lambda>free.
      let used = total - free in
      py_truediv (of_int used * 100) (of_int total))))))"

subsection \<open>\<^verbatim>\<open>read_disk_usage_percent\<close>\<close>

text \<open>The result of \<^verbatim>\<open>os.statvfs(path)\<close>: the three fields the code reads.\<close>

record statvfs_result =
  f_blocks :: int
  f_bfree :: int
  f_frsize :: int

definition read_disk_usage_percent :: "statvfs_result \<Rightarrow> error + rat" where
  "read_disk_usage_percent st =
     (let used = (f_blocks st - f_bfree st) * f_frsize st;
          total = f_blocks st * f_frsize st
      in py_truediv (of_int used * 100) (of_int total))"

subsection \<open>\<^verbatim>\<open>read_disk_io\<close>\<close>

text \<open>The body of the loop over the lines of \<^verbatim>\<open>/proc/diskstats\<close>; the loop
  variables are \<open>(read_sectors, write_sectors)\<close>.\<close>

definition disk_io_body :: "int \<times> int \<Rightarrow> string \<Rightarrow> error + (int \<times> int)" where
  "disk_io_body acc line =
     (let (read_sectors, write_sectors) = acc; parts = py_split line in
      and_then (py_index parts 2) (\<lambda>name.
      if py_startswith name [''sd'', ''nvme'', ''hd'']
      then and_then (py_index parts 5) (\<lambda>p5.
           and_then (py_int p5) (\<lambda>r.
           and_then (py_index parts 9) (\<lambda>p9.
           and_then (py_int p9) (\<lambda>w.
           Inr (read_sectors + r, write_sectors + w)))))
      else Inr (read_sectors, write_sectors)))"

text \<open>The divisor of the conversion is the literal \<^verbatim>\<open>1024**2\<close>.\<close>

definition read_disk_io :: "string list \<Rightarrow> error + (rat \<times> rat)" where
  "read_disk_io diskstats =
     and_then (for_each disk_io_body (0, 0) diskstats) (\<lambda>(read_sectors, write_sectors).
     Inr (of_int (read_sectors * 512) / 1024 ^ 2, of_int (write_sectors * 512) / 1024 ^ 2))"

subsection \<open>\<^verbatim>\<open>read_net_dev\<close>\<close>

text \<open>The body of the loop over the lines after the two headers; the loop variables
  are \<open>(rx, tx)\<close>. Unpacking \<^verbatim>\<open>iface, data = line.split(':', 1)\<close> raises ValueError
  when the line has no colon.\<close>

definition net_dev_body :: "int \<times> int \<Rightarrow> string \<Rightarrow> error + (int \<times> int)" where
  "net_dev_body acc line =
     (let (rx, tx) = acc in
      case py_split_colon line of
        [iface, data] \<Rightarrow>
          (let iface' = py_strip iface in
           if iface' = ''lo'' then Inr (rx, tx)
           else and_then (map_int (py_split data)) (\<lambda>vals.
                and_then (py_index vals 0) (\<lambda>v0.
                and_then (py_index vals 8) (\<lambda>v8.
                Inr (rx + v0, tx + v8)))))
      | _ \<Rightarrow> Inl ValueError)"

definition read_net_dev :: "string list \<Rightarrow> error + (rat \<times> rat)" where
  "read_net_dev net_dev =
     (let (header1, rest) = readline net_dev;
          (header2, rest') = readline rest in
      and_then (for_each net_dev_body (0, 0) rest') (\<lambda>(rx, tx).
      Inr (of_int rx / 1024, of_int tx / 1024)))"

section \<open>The sampling loop\<close>

text \<open>The namedtuple \<^verbatim>\<open>Prev\<close>: the ticks are integers, the disk and network
  counters are the floats the readers return (MB and KB).\<close>

record Prev =
  cpu_idle :: int
  cpu_total :: int
  disk_read :: rat
  disk_write :: rat
  net_rx :: rat
  net_tx :: rat

text \<open>What the host shows during one pass over the sources: every file is read once
  per pass, and \<open>statvfs_root\<close> is the result of \<^verbatim>\<open>os.statvfs('/')\<close>.\<close>

record host =
  proc_stat :: "string list"
  proc_meminfo :: "string list"
  statvfs_root :: statvfs_result
  proc_diskstats :: "string list"
  proc_net_dev :: "string list"

text \<open>The seven numbers one iteration formats into its line.\<close>

record metrics =
  cpu_pct :: rat
  ram_pct :: rat
  disk_pct :: rat
  rd_rate :: rat
  wr_rate :: rat
  rx_rate :: rat
  tx_rate :: rat

text \<open>Lines 85-88 of \<^verbatim>\<open>main\<close>: the first snapshot.\<close>

definition initial_snapshot :: "host \<Rightarrow> error + Prev" where
  "initial_snapshot h =
     and_then (read_cpu_times (proc_stat h)) (\<lambda>(idle0, total0).
     and_then (read_disk_io (proc_diskstats h)) (\<lambda>(rd0, wr0).
     and_then (read_net_dev (proc_net_dev h)) (\<lambda>(rx0, tx0).
     Inr \<lparr>cpu_idle = idle0, cpu_total = total0, disk_read = rd0, disk_write = wr0,
          net_rx = rx0, net_tx = tx0\<rparr>)))"

text \<open>Lines 93-95: the CPU percentage from the previous snapshot and the ticks just
  read. \<^verbatim>\<open>if d_total\<close> tests the integer for being non-zero.\<close>

definition cpu_utilization :: "Prev \<Rightarrow> int \<Rightarrow> int \<Rightarrow> error + rat" where
  "cpu_utilization prev idle1 total1 =
     (let d_idle = idle1 - cpu_idle prev;
          d_total = total1 - cpu_total prev
      in if d_total \<noteq> 0
         then and_then (py_truediv (of_int d_idle) (of_int d_total)) (\<lambda>q.
              Inr ((1 - q) * 100))
         else Inr 0)"

text \<open>Lines 92-114: one iteration up to the new snapshot. It returns the metrics of
  the line and the snapshot that replaces \<^verbatim>\<open>prev\<close>.\<close>

definition tick :: "host \<Rightarrow> Prev \<Rightarrow> error + (metrics \<times> Prev)" where
  "tick h prev =
     and_then (read_cpu_times (proc_stat h)) (\<lambda>(idle1, total1).
     and_then (cpu_utilization prev idle1 total1) (\<lambda>cpu.
     and_then (read_mem_percent (proc_meminfo h)) (\<lambda>ram.
     and_then (read_disk_usage_percent (statvfs_root h)) (\<lambda>disk.
     and_then (read_disk_io (proc_diskstats h)) (\<lambda>(rd1, wr1).
     and_then (read_net_dev (proc_net_dev h)) (\<lambda>(rx1, tx1).
     Inr (\<lparr>cpu_pct = cpu, ram_pct = ram, disk_pct = disk,
           rd_rate = rd1 - disk_read prev, wr_rate = wr1 - disk_write prev,
           rx_rate = rx1 - net_rx prev, tx_rate = tx1 - net_tx prev\<rparr>,
          \<lparr>cpu_idle = idle1, cpu_total = total1, disk_read = rd1, disk_write = wr1,
           net_rx = rx1, net_tx = tx1\<rparr>)))))))"

text \<open>Lines 126-131: the line is a \<^verbatim>\<open>str\<close> that holds two arrows outside the
  range of \<^typ>\<open>char\<close>, so it is the list of its code points and \<^verbatim>\<open>len\<close> is
  \<^const>\<open>length\<close>. The second argument is \<^verbatim>\<open>os.get_terminal_size().columns\<close>,
  \<open>None\<close> when the call raises OSError.\<close>

definition truncate_line :: "nat list \<Rightarrow> int option \<Rightarrow> nat list" where
  "truncate_line line columns =
     (case columns of
        None \<Rightarrow> line
      | Some cols \<Rightarrow>
          if int (length line) > cols
          then py_slice_to line (cols - 3) @ map of_char ''...''
          else line)"

text \<open>
  \<^verbatim>\<open>while True\<close>, run for as many iterations as host observations are supplied. The
  result is the metrics of the lines printed so far and the exception that ended the
  loop, if one did.
\<close>

fun main_loop :: "Prev \<Rightarrow> host list \<Rightarrow> metrics list \<times> error option" where
  "main_loop prev [] = ([], None)"
| "main_loop prev (h # hs) =
     (case tick h prev of
        Inl e \<Rightarrow> ([], Some e)
      | Inr (m, prev') \<Rightarrow> (case main_loop prev' hs of (ms, r) \<Rightarrow> (m # ms, r)))"

definition main :: "host \<Rightarrow> host list \<Rightarrow> metrics list \<times> error option" where
  "main h0 hs =
     (case initial_snapshot h0 of
        Inl e \<Rightarrow> ([], Some e)
      | Inr prev \<Rightarrow> main_loop prev hs)"

section \<open>Example inputs\<close>

text \<open>Two consecutive readings of \<^verbatim>\<open>/proc/stat\<close>: idle 1000 of 5000 ticks, then idle
  1200 of 5800. The aggregate line carries steal, guest and guest_nice after softirq.\<close>

definition stat_1 :: "string list" where
  "stat_1 = [''cpu  2000 0 1000 1000 500 300 200 11 22 33\<newline>'',
             ''cpu0 2000 0 1000 1000 500 300 200 11 22 33\<newline>'']"

definition stat_2 :: "string list" where
  "stat_2 = [''cpu  2300 0 1300 1200 500 300 200 11 22 33\<newline>'',
             ''cpu0 2300 0 1300 1200 500 300 200 11 22 33\<newline>'']"

definition meminfo_1 :: "string list" where
  "meminfo_1 = [''MemTotal:        8000000 kB\<newline>'',
                ''MemFree:         2000000 kB\<newline>'',
                ''MemAvailable:    5000000 kB\<newline>'']"

definition meminfo_zero :: "string list" where
  "meminfo_zero = [''MemTotal:              0 kB\<newline>'',
                   ''MemFree:               0 kB\<newline>'']"

definition statvfs_1 :: statvfs_result where
  "statvfs_1 = \<lparr>f_blocks = 1000, f_bfree = 500, f_frsize = 4096\<rparr>"

definition statvfs_zero :: statvfs_result where
  "statvfs_zero = \<lparr>f_blocks = 0, f_bfree = 0, f_frsize = 4096\<rparr>"

text \<open>\<^verbatim>\<open>/proc/diskstats\<close>: 4096 sectors read and 8192 written on \<^verbatim>\<open>sda\<close>, then 6144
  and 10240; in \<open>diskstats_reset\<close> the counters have fallen back to 2048 and 4096.\<close>

definition diskstats_1 :: "string list" where
  "diskstats_1 = [''   7       0 loop0 55 0 999 12 0 0 0 0 0 12 12\<newline>'',
                  ''   8       0 sda 40 3 4096 25 10 2 8192 9 0 30 34\<newline>'']"

definition diskstats_2 :: "string list" where
  "diskstats_2 = [''   7       0 loop0 55 0 999 12 0 0 0 0 0 12 12\<newline>'',
                  ''   8       0 sda 60 3 6144 25 12 2 10240 9 0 30 34\<newline>'']"

definition diskstats_reset :: "string list" where
  "diskstats_reset = [''   7       0 loop0 55 0 999 12 0 0 0 0 0 12 12\<newline>'',
                      ''   8       0 sda 20 3 2048 25 5 2 4096 9 0 30 34\<newline>'']"

text \<open>A \<^verbatim>\<open>loop0\<close> line and two \<^verbatim>\<open>sd\<close> lines with 100 and 2000 sectors read.\<close>

definition diskstats_two_sd :: "string list" where
  "diskstats_two_sd = [''   7       0 loop0 55 0 999 12 0 0 777 0 0 12 12\<newline>'',
                       ''   8       0 sda 40 3 100 25 10 2 300 9 0 30 34\<newline>'',
                       ''   8      16 sdb 90 7 2000 80 20 4 300 18 0 90 98\<newline>'']"

text \<open>The same file with an \<^verbatim>\<open>nvme\<close> device added: 4096 sectors read and 1024
  written over the three allow-listed devices.\<close>

definition diskstats_three_dev :: "string list" where
  "diskstats_three_dev = [''   7       0 loop0 55 0 999 12 0 0 777 0 0 12 12\<newline>'',
                       ''   8       0 sda 40 3 100 25 10 2 300 9 0 30 34\<newline>'',
                       ''   8      16 sdb 90 7 2000 80 20 4 300 18 0 90 98\<newline>'',
                       '' 259       0 nvme0n1 70 1 1996 60 30 5 424 11 0 50 61\<newline>'']"

text \<open>A well-formed \<^verbatim>\<open>sda\<close> line followed by an \<^verbatim>\<open>sdb\<close> line cut after five
  fields.\<close>

definition diskstats_short_line :: "string list" where
  "diskstats_short_line = [''   8       0 sda 40 3 4096 25 10 2 8192 9 0 30 34\<newline>'',
                           ''   8      16 sdb 90 7\<newline>'']"

text \<open>\<^verbatim>\<open>/proc/net/dev\<close>: the two header lines, the loopback interface and
  \<^verbatim>\<open>eth0\<close>.\<close>

definition net_dev_1 :: "string list" where
  "net_dev_1 = [''Inter-|   Receive                    |  Transmit\<newline>'',
                '' face |bytes packets errs drop fifo frame compressed multicast|bytes packets errs drop fifo colls carrier compressed\<newline>'',
                ''    lo: 500 5 0 0 0 0 0 0 500 5 0 0 0 0 0 0\<newline>'',
                ''  eth0: 8192 10 0 0 0 0 0 0 16384 20 0 0 0 0 0 0\<newline>'']"

definition net_dev_2 :: "string list" where
  "net_dev_2 = [''Inter-|   Receive                    |  Transmit\<newline>'',
                '' face |bytes packets errs drop fifo frame compressed multicast|bytes packets errs drop fifo colls carrier compressed\<newline>'',
                ''    lo: 900 9 0 0 0 0 0 0 900 9 0 0 0 0 0 0\<newline>'',
                ''  eth0: 10240 12 0 0 0 0 0 0 20480 24 0 0 0 0 0 0\<newline>'']"

definition net_dev_reset :: "string list" where
  "net_dev_reset = [''Inter-|   Receive                    |  Transmit\<newline>'',
                '' face |bytes packets errs drop fifo frame compressed multicast|bytes packets errs drop fifo colls carrier compressed\<newline>'',
                ''    lo: 900 9 0 0 0 0 0 0 900 9 0 0 0 0 0 0\<newline>'',
                ''  eth0: 4096 4 0 0 0 0 0 0 8192 8 0 0 0 0 0 0\<newline>'']"

text \<open>The loopback interface and three other interfaces: 11264 bytes received and
  20480 sent outside \<^verbatim>\<open>lo\<close>.\<close>

definition net_dev_three_if :: "string list" where
  "net_dev_three_if = [''Inter-|   Receive                    |  Transmit\<newline>'',
                '' face |bytes packets errs drop fifo frame compressed multicast|bytes packets errs drop fifo colls carrier compressed\<newline>'',
                ''    lo: 500 5 0 0 0 0 0 0 500 5 0 0 0 0 0 0\<newline>'',
                ''  eth0: 8192 10 0 0 0 0 0 0 16384 20 0 0 0 0 0 0\<newline>'',
                '' wlan0: 2048 3 0 0 0 0 0 0 1024 2 0 0 0 0 0 0\<newline>'',
                ''docker0: 1024 1 0 0 0 0 0 0 3072 4 0 0 0 0 0 0\<newline>'']"

text \<open>A well-formed \<^verbatim>\<open>eth0\<close> line followed by an \<^verbatim>\<open>eth1\<close> line whose second
  field is not a number.\<close>

definition net_dev_bad_field :: "string list" where
  "net_dev_bad_field = [''Inter-|   Receive                    |  Transmit\<newline>'',
                '' face |bytes packets errs drop fifo frame compressed multicast|bytes packets errs drop fifo colls carrier compressed\<newline>'',
                ''  eth0: 8192 10 0 0 0 0 0 0 16384 20 0 0 0 0 0 0\<newline>'',
                ''  eth1: 4096 x 0 0 0 0 0 0 8192 8 0 0 0 0 0 0\<newline>'']"

definition host_1 :: host where
  "host_1 = \<lparr>proc_stat = stat_1, proc_meminfo = meminfo_1, statvfs_root = statvfs_1,
             proc_diskstats = diskstats_1, proc_net_dev = net_dev_1\<rparr>"

definition host_2 :: host where
  "host_2 = \<lparr>proc_stat = stat_2, proc_meminfo = meminfo_1, statvfs_root = statvfs_1,
             proc_diskstats = diskstats_2, proc_net_dev = net_dev_2\<rparr>"

definition host_reset :: host where
  "host_reset = \<lparr>proc_stat = stat_2, proc_meminfo = meminfo_1, statvfs_root = statvfs_1,
                 proc_diskstats = diskstats_reset, proc_net_dev = net_dev_reset\<rparr>"

definition host_malformed :: host where
  "host_malformed = \<lparr>proc_stat = stat_2, proc_meminfo = meminfo_1, statvfs_root = statvfs_1,
                     proc_diskstats = diskstats_short_line, proc_net_dev = net_dev_bad_field\<rparr>"

text \<open>The snapshot \<^verbatim>\<open>Prev\<close> holds after reading \<open>host_1\<close>.\<close>

definition prev_1 :: Prev where
  "prev_1 = \<lparr>cpu_idle = 1000, cpu_total = 5000, disk_read = 2, disk_write = 4,
             net_rx = 8, net_tx = 16\<rparr>"

text \<open>The line the loop formats after \<open>host_1\<close> and \<open>host_2\<close>, 89 code points; 8593 and
  8595 are the two arrows.\<close>

definition example_line :: "nat list" where
  "example_line =
     map of_char ''CPU: 75.0% RAM: 75.0% DISK: 50.0% I/O R: 1.00MB/s W: 1.00MB/s NET ''
     @ [8593] @ map of_char ''  4.00KB/s '' @ [8595] @ map of_char ''  2.00KB/s''"

section \<open>Lemmas about the primitives\<close>

lemmas py_eval = readline_def py_split_def py_split_colon_def py_strip_def py_startswith_def
  py_isspace_def py_int_def is_digit_def digit_val_def py_index_def py_truediv_def and_then_def

lemma and_then_Inr_iff:
  "and_then m f = Inr y \<longleftrightarrow> (\<exists>x. m = Inr x \<and> f x = Inr y)"
  by (cases m) (simp_all add: and_then_def)

lemma py_index_Inr_iff: "py_index xs i = Inr x \<longleftrightarrow> i < length xs \<and> x = xs ! i"
  by (auto simp: py_index_def)

lemma drop2_readline: "snd (readline (snd (readline ls))) = drop 2 ls"
  by (cases ls; cases "tl ls") (auto simp: readline_def drop_Suc)

text \<open>A loop fails as soon as one element makes its body fail from every state.\<close>

lemma for_each_fail:
  "x \<in> set xs \<Longrightarrow> (\<And>s. \<exists>e. body s x = Inl e) \<Longrightarrow> \<exists>e. for_each body s xs = Inl e"
proof (induction xs arbitrary: s)
  case Nil
  then show ?case by simp
next
  case (Cons a xs)
  show ?case
  proof (cases "body s a")
    case (Inl e)
    then show ?thesis by simp
  next
    case (Inr s')
    with Cons.prems have "x \<noteq> a" by (metis Inl_Inr_False)
    with Cons.prems have "x \<in> set xs" by simp
    from Cons.IH[OF this Cons.prems(2)] Inr show ?thesis by simp
  qed
qed

lemma map_int_length: "map_int xs = Inr vs \<Longrightarrow> length vs = length xs"
proof (induction xs arbitrary: vs)
  case Nil
  then show ?case by simp
next
  case (Cons x xs)
  from Cons.prems obtain v vs' where "map_int xs = Inr vs'" and "vs = v # vs'"
    by (auto split: sum.splits)
  with Cons.IH show ?case by simp
qed

lemma map_int_nth:
  "map_int xs = Inr vs \<Longrightarrow> i < length vs \<Longrightarrow> py_int (xs ! i) = Inr (vs ! i)"
proof (induction xs arbitrary: vs i)
  case Nil
  then show ?case by simp
next
  case (Cons x xs)
  from Cons.prems(1) obtain v vs' where
    v: "py_int x = Inr v" and vs': "map_int xs = Inr vs'" and eq: "vs = v # vs'"
    by (auto split: sum.splits)
  show ?case
  proof (cases i)
    case 0
    with v eq show ?thesis by simp
  next
    case (Suc j)
    with Cons.prems(2) eq have "j < length vs'" by simp
    from Cons.IH[OF vs' this] Suc eq show ?thesis by simp
  qed
qed

lemma map_int_fail:
  "f \<in> set fs \<Longrightarrow> py_int f = Inl e \<Longrightarrow> \<exists>e'. map_int fs = Inl e'"
proof (induction fs)
  case Nil
  then show ?case by simp
next
  case (Cons x xs)
  show ?case
  proof (cases "py_int x")
    case (Inl e1)
    then show ?thesis by simp
  next
    case (Inr v)
    with Cons.prems have "f \<in> set xs" by auto
    from Cons.IH[OF this Cons.prems(2)] Inr show ?thesis by auto
  qed
qed

lemma map_int_total:
  "(\<forall>f \<in> set fs. \<exists>v. py_int f = Inr v) \<Longrightarrow> \<exists>vals. map_int fs = Inr vals"
proof (induction fs)
  case Nil
  then show ?case by simp
next
  case (Cons x xs)
  from Cons.prems obtain v where v: "py_int x = Inr v" by auto
  from Cons.prems have "\<forall>f \<in> set xs. \<exists>v. py_int f = Inr v" by simp
  from Cons.IH[OF this] obtain vs where "map_int xs = Inr vs" by blast
  with v show ?case by simp
qed

section \<open>Lemmas about the loops of the parsers\<close>

lemma disk_io_body_Inr:
  assumes "disk_io_body (r, w) line = Inr (r', w')"
  shows "2 < length (py_split line) \<and>
     (if py_startswith (py_split line ! 2) [''sd'', ''nvme'', ''hd'']
      then r' = r + projr (py_int (py_split line ! 5)) \<and>
           w' = w + projr (py_int (py_split line ! 9))
      else r' = r \<and> w' = w)"
  using assms
  by (auto simp: disk_io_body_def Let_def and_then_Inr_iff py_index_Inr_iff split: if_splits)

text \<open>On a well-formed line the body of the disk loop does not raise.\<close>

lemma disk_io_body_total:
  assumes "2 < length (py_split l)"
    and "py_startswith (py_split l ! 2) [''sd'', ''nvme'', ''hd''] \<longrightarrow>
           9 < length (py_split l) \<and> (\<exists>r. py_int (py_split l ! 5) = Inr r) \<and>
           (\<exists>w. py_int (py_split l ! 9) = Inr w)"
  shows "disk_io_body (r, w) l =
     Inr (if py_startswith (py_split l ! 2) [''sd'', ''nvme'', ''hd'']
          then (r + projr (py_int (py_split l ! 5)), w + projr (py_int (py_split l ! 9)))
          else (r, w))"
proof (cases "py_startswith (py_split l ! 2) [''sd'', ''nvme'', ''hd'']")
  case False
  with assms(1) show ?thesis
    by (simp add: disk_io_body_def Let_def and_then_def py_index_def)
next
  case True
  with assms(2) obtain a b where len: "9 < length (py_split l)"
    and a: "py_int (py_split l ! 5) = Inr a" and b: "py_int (py_split l ! 9) = Inr b"
    by blast
  from len have "5 < length (py_split l)" by arith
  with True assms(1) len a b show ?thesis
    by (simp add: disk_io_body_def Let_def and_then_def py_index_def)
qed

lemma for_each_disk_io_total:
  assumes "\<forall>l \<in> set ls. 2 < length (py_split l) \<and>
       (py_startswith (py_split l ! 2) [''sd'', ''nvme'', ''hd''] \<longrightarrow>
           9 < length (py_split l) \<and> (\<exists>r. py_int (py_split l ! 5) = Inr r) \<and>
           (\<exists>w. py_int (py_split l ! 9) = Inr w))"
  shows "for_each disk_io_body (r, w) ls =
     Inr (r + (\<Sum>l \<leftarrow> filter (\<lambda>l. py_startswith (py_split l ! 2) [''sd'', ''nvme'', ''hd'']) ls.
                 projr (py_int (py_split l ! 5))),
          w + (\<Sum>l \<leftarrow> filter (\<lambda>l. py_startswith (py_split l ! 2) [''sd'', ''nvme'', ''hd'']) ls.
                 projr (py_int (py_split l ! 9))))"
  using assms
proof (induction ls arbitrary: r w)
  case Nil
  then show ?case by simp
next
  case (Cons l ls)
  from Cons.prems have l: "2 < length (py_split l)"
    "py_startswith (py_split l ! 2) [''sd'', ''nvme'', ''hd''] \<longrightarrow>
           9 < length (py_split l) \<and> (\<exists>r. py_int (py_split l ! 5) = Inr r) \<and>
           (\<exists>w. py_int (py_split l ! 9) = Inr w)"
    and rest: "\<forall>l \<in> set ls. 2 < length (py_split l) \<and>
       (py_startswith (py_split l ! 2) [''sd'', ''nvme'', ''hd''] \<longrightarrow>
           9 < length (py_split l) \<and> (\<exists>r. py_int (py_split l ! 5) = Inr r) \<and>
           (\<exists>w. py_int (py_split l ! 9) = Inr w))"
    by simp_all
  show ?case
  proof (cases "py_startswith (py_split l ! 2) [''sd'', ''nvme'', ''hd'']")
    case True
    with disk_io_body_total[OF l, of r w] Cons.IH[OF rest] show ?thesis
      by (simp add: add.assoc)
  next
    case False
    with disk_io_body_total[OF l, of r w] Cons.IH[OF rest] show ?thesis
      by simp
  qed
qed

lemma disk_io_body_fail:
  assumes "length (py_split l) < 3 \<or>
      (py_startswith (py_split l ! 2) [''sd'', ''nvme'', ''hd''] \<and>
        (length (py_split l) < 10 \<or> py_int (py_split l ! 5) = Inl ValueError \<or>
         py_int (py_split l ! 9) = Inl ValueError))"
  shows "\<exists>e. disk_io_body s l = Inl e"
proof (cases "disk_io_body s l")
  case (Inl e)
  then show ?thesis by simp
next
  case (Inr s')
  obtain r w r' w' where "s = (r, w)" "s' = (r', w')" by (cases s, cases s')
  with Inr have ok: "disk_io_body (r, w) l = Inr (r', w')" by simp
  then have "2 < length (py_split l)"
    by (simp add: disk_io_body_Inr)
  with assms have sel: "py_startswith (py_split l ! 2) [''sd'', ''nvme'', ''hd'']"
    and bad: "length (py_split l) < 10 \<or> py_int (py_split l ! 5) = Inl ValueError \<or>
         py_int (py_split l ! 9) = Inl ValueError"
    by auto
  from ok sel have "9 < length (py_split l) \<and> (\<exists>a. py_int (py_split l ! 5) = Inr a)
     \<and> (\<exists>b. py_int (py_split l ! 9) = Inr b)"
    by (auto simp: disk_io_body_def Let_def and_then_Inr_iff py_index_Inr_iff)
  with bad show ?thesis by auto
qed

lemma read_disk_io_fail:
  assumes "l \<in> set diskstats" and "\<And>s. \<exists>e. disk_io_body s l = Inl e"
  shows "\<exists>e. read_disk_io diskstats = Inl e"
proof -
  from for_each_fail[of l diskstats disk_io_body "(0, 0)"] assms
  obtain e where "for_each disk_io_body (0, 0) diskstats = Inl e"
    by blast
  then show ?thesis by (simp add: read_disk_io_def and_then_def)
qed

text \<open>On a well-formed line the body of the network loop does not raise.\<close>

lemma net_dev_body_total:
  assumes "CHR '':'' \<in> set l"
    and "py_strip (py_split_colon l ! 0) \<noteq> ''lo'' \<longrightarrow>
           8 < length (py_split (py_split_colon l ! 1)) \<and>
           (\<forall>f \<in> set (py_split (py_split_colon l ! 1)). \<exists>v. py_int f = Inr v)"
  shows "net_dev_body (rx, tx) l =
     Inr (if py_strip (py_split_colon l ! 0) = ''lo'' then (rx, tx)
          else (rx + projr (py_int (py_split (py_split_colon l ! 1) ! 0)),
                tx + projr (py_int (py_split (py_split_colon l ! 1) ! 8))))"
proof -
  define iface where "iface = takeWhile (\<lambda>c. c \<noteq> CHR '':'') l"
  define data where "data = tl (dropWhile (\<lambda>c. c \<noteq> CHR '':'') l)"
  from assms(1) have sc: "py_split_colon l = [iface, data]"
    by (simp add: py_split_colon_def iface_def data_def)
  show ?thesis
  proof (cases "py_strip iface = ''lo''")
    case True
    with sc show ?thesis by (simp add: net_dev_body_def)
  next
    case False
    with assms(2) sc have len: "8 < length (py_split data)"
      and all: "\<forall>f \<in> set (py_split data). \<exists>v. py_int f = Inr v"
      by simp_all
    from map_int_total[OF all] obtain vals where vals: "map_int (py_split data) = Inr vals"
      by blast
    from map_int_length[OF vals] len have l8: "8 < length vals" by simp
    then have l0: "0 < length vals" by arith
    from map_int_nth[OF vals l0] map_int_nth[OF vals l8]
    have "py_int (py_split data ! 0) = Inr (vals ! 0)"
      "py_int (py_split data ! 8) = Inr (vals ! 8)" .
    with False sc vals l8 l0 show ?thesis
      by (simp add: net_dev_body_def and_then_def py_index_def)
  qed
qed

lemma for_each_net_dev_total:
  assumes "\<forall>l \<in> set ls. CHR '':'' \<in> set l \<and>
       (py_strip (py_split_colon l ! 0) \<noteq> ''lo'' \<longrightarrow>
           8 < length (py_split (py_split_colon l ! 1)) \<and>
           (\<forall>f \<in> set (py_split (py_split_colon l ! 1)). \<exists>v. py_int f = Inr v))"
  shows "for_each net_dev_body (rx, tx) ls =
     Inr (rx + (\<Sum>l \<leftarrow> filter (\<lambda>l. py_strip (py_split_colon l ! 0) \<noteq> ''lo'') ls.
                 projr (py_int (py_split (py_split_colon l ! 1) ! 0))),
          tx + (\<Sum>l \<leftarrow> filter (\<lambda>l. py_strip (py_split_colon l ! 0) \<noteq> ''lo'') ls.
                 projr (py_int (py_split (py_split_colon l ! 1) ! 8))))"
  using assms
proof (induction ls arbitrary: rx tx)
  case Nil
  then show ?case by simp
next
  case (Cons l ls)
  from Cons.prems have l: "CHR '':'' \<in> set l"
    "py_strip (py_split_colon l ! 0) \<noteq> ''lo'' \<longrightarrow>
           8 < length (py_split (py_split_colon l ! 1)) \<and>
           (\<forall>f \<in> set (py_split (py_split_colon l ! 1)). \<exists>v. py_int f = Inr v)"
    and rest: "\<forall>l \<in> set ls. CHR '':'' \<in> set l \<and>
       (py_strip (py_split_colon l ! 0) \<noteq> ''lo'' \<longrightarrow>
           8 < length (py_split (py_split_colon l ! 1)) \<and>
           (\<forall>f \<in> set (py_split (py_split_colon l ! 1)). \<exists>v. py_int f = Inr v))"
    by simp_all
  show ?case
  proof (cases "py_strip (py_split_colon l ! 0) = ''lo''")
    case True
    with net_dev_body_total[OF l, of rx tx] Cons.IH[OF rest] show ?thesis
      by simp
  next
    case False
    with net_dev_body_total[OF l, of rx tx] Cons.IH[OF rest] show ?thesis
      by (simp add: add.assoc)
  qed
qed

lemma net_dev_body_fail:
  assumes "CHR '':'' \<notin> set l \<or>
      (py_strip (py_split_colon l ! 0) \<noteq> ''lo'' \<and>
        (length (py_split (py_split_colon l ! 1)) < 9 \<or>
         (\<exists>f \<in> set (py_split (py_split_colon l ! 1)). py_int f = Inl ValueError)))"
  shows "\<exists>e. net_dev_body s l = Inl e"
proof (cases "CHR '':'' \<in> set l")
  case False
  then show ?thesis by (simp add: net_dev_body_def py_split_colon_def split_beta)
next
  case True
  define iface where "iface = takeWhile (\<lambda>c. c \<noteq> CHR '':'') l"
  define data where "data = tl (dropWhile (\<lambda>c. c \<noteq> CHR '':'') l)"
  from True have sc: "py_split_colon l = [iface, data]"
    by (simp add: py_split_colon_def iface_def data_def)
  with True assms have nlo: "py_strip iface \<noteq> ''lo''"
    and bad: "length (py_split data) < 9 \<or>
              (\<exists>f \<in> set (py_split data). py_int f = Inl ValueError)"
    by simp_all
  show ?thesis
  proof (cases "map_int (py_split data)")
    case (Inl e)
    with sc nlo show ?thesis by (simp add: net_dev_body_def split_beta and_then_def)
  next
    case (Inr vals)
    with bad map_int_fail have "length (py_split data) < 9" by fastforce
    with map_int_length[OF Inr] have "\<not> 8 < length vals" by simp
    with sc nlo Inr show ?thesis
      by (simp add: net_dev_body_def split_beta and_then_def py_index_def)
  qed
qed

lemma read_net_dev_fail:
  assumes "l \<in> set (drop 2 net_dev)" and "\<And>s. \<exists>e. net_dev_body s l = Inl e"
  shows "\<exists>e. read_net_dev net_dev = Inl e"
proof -
  from for_each_fail[of l "drop 2 net_dev" net_dev_body "(0, 0)"] assms
  obtain e where "for_each net_dev_body (0, 0) (drop 2 net_dev) = Inl e"
    by blast
  then show ?thesis by (simp add: read_net_dev_def and_then_def split_beta drop2_readline)
qed

section \<open>Lemmas about one iteration\<close>

lemma tick_Inr:
  assumes "tick h prev = Inr (m, prev')"
  shows "read_cpu_times (proc_stat h) = Inr (cpu_idle prev', cpu_total prev')"
    and "read_disk_io (proc_diskstats h) = Inr (disk_read prev', disk_write prev')"
    and "read_net_dev (proc_net_dev h) = Inr (net_rx prev', net_tx prev')"
    and "cpu_utilization prev (cpu_idle prev') (cpu_total prev') = Inr (cpu_pct m)"
    and "rd_rate m = disk_read prev' - disk_read prev"
    and "wr_rate m = disk_write prev' - disk_write prev"
    and "rx_rate m = net_rx prev' - net_rx prev"
    and "tx_rate m = net_tx prev' - net_tx prev"
  using assms by (auto simp: tick_def and_then_Inr_iff)

text \<open>The snapshot an iteration stores is the one the start-up code would read from the
  same host.\<close>

lemma tick_snapshot:
  assumes "tick h prev = Inr (m, prev')"
  shows "initial_snapshot h = Inr prev'"
  using tick_Inr(1-3)[OF assms] by (simp add: initial_snapshot_def and_then_def)

lemma tick_fail:
  assumes "(\<exists>e. read_disk_io (proc_diskstats h) = Inl e) \<or>
           (\<exists>e. read_net_dev (proc_net_dev h) = Inl e)"
  shows "\<exists>e. tick h prev = Inl e"
proof (cases "tick h prev")
  case (Inl e)
  then show ?thesis by simp
next
  case (Inr r)
  obtain m prev' where "r = (m, prev')" by (cases r)
  with Inr have t: "tick h prev = Inr (m, prev')" by simp
  from tick_Inr(2,3)[OF t] assms show ?thesis by auto
qed

lemma cpu_utilization_nonneg:
  assumes "cpu_utilization prev idle1 total1 = Inr pct"
    and "cpu_idle prev \<le> idle1"
    and "idle1 - cpu_idle prev \<le> total1 - cpu_total prev"
  shows "0 \<le> pct"
proof (cases "total1 - cpu_total prev = 0")
  case True
  with assms(1) show ?thesis by (simp add: cpu_utilization_def)
next
  case False
  with assms(2,3) have pos: "0 < total1 - cpu_total prev" by arith
  define q :: rat where
    "q = of_int (idle1 - cpu_idle prev) / of_int (total1 - cpu_total prev)"
  from False have "cpu_utilization prev idle1 total1 = Inr ((1 - q) * 100)"
    unfolding q_def by (simp add: cpu_utilization_def py_truediv_def and_then_def Let_def)
  with assms(1) have pct: "pct = (1 - q) * 100" by simp
  from assms(3)
  have "(of_int (idle1 - cpu_idle prev) :: rat) \<le> of_int (total1 - cpu_total prev)"
    by (simp only: of_int_le_iff)
  with pos have "q \<le> 1"
    unfolding q_def by (simp add: divide_le_eq_1)
  then have "0 \<le> (1 - q) * 100" by simp
  with pct show ?thesis by simp
qed

lemma main_loop_nonneg:
  assumes "map initial_snapshot hs = map Inr ps"
    and "successively (\<lambda>p q. cpu_idle p \<le> cpu_idle q \<and> cpu_total p \<le> cpu_total q \<and>
            disk_read p \<le> disk_read q \<and> disk_write p \<le> disk_write q \<and>
            net_rx p \<le> net_rx q \<and> net_tx p \<le> net_tx q \<and>
            cpu_idle q - cpu_idle p \<le> cpu_total q - cpu_total p) (prev # ps)"
  shows "\<forall>m \<in> set (fst (main_loop prev hs)).
           0 \<le> cpu_pct m \<and> 0 \<le> rd_rate m \<and> 0 \<le> wr_rate m \<and>
           0 \<le> rx_rate m \<and> 0 \<le> tx_rate m"
  using assms
proof (induction hs arbitrary: prev ps)
  case Nil
  then show ?case by simp
next
  case (Cons h hs)
  from Cons.prems(1) obtain q qs where ps: "ps = q # qs"
    and q: "initial_snapshot h = Inr q" and qs: "map initial_snapshot hs = map Inr qs"
    by (cases ps) auto
  show ?case
  proof (cases "tick h prev")
    case (Inl e)
    then show ?thesis by simp
  next
    case (Inr r)
    obtain m prev' where r: "r = (m, prev')" by (cases r)
    with Inr have t: "tick h prev = Inr (m, prev')" by simp
    from tick_snapshot[OF t] q have eq: "prev' = q" by simp
    from Cons.prems(2) ps
    have step: "cpu_idle prev \<le> cpu_idle q" "cpu_total prev \<le> cpu_total q"
      "disk_read prev \<le> disk_read q" "disk_write prev \<le> disk_write q"
      "net_rx prev \<le> net_rx q" "net_tx prev \<le> net_tx q"
      "cpu_idle q - cpu_idle prev \<le> cpu_total q - cpu_total prev"
      and rest: "successively (\<lambda>p q. cpu_idle p \<le> cpu_idle q \<and> cpu_total p \<le> cpu_total q \<and>
            disk_read p \<le> disk_read q \<and> disk_write p \<le> disk_write q \<and>
            net_rx p \<le> net_rx q \<and> net_tx p \<le> net_tx q \<and>
            cpu_idle q - cpu_idle p \<le> cpu_total q - cpu_total p) (q # qs)"
      by simp_all
    from tick_Inr(4)[OF t] eq
    have "cpu_utilization prev (cpu_idle q) (cpu_total q) = Inr (cpu_pct m)"
      by simp
    from cpu_utilization_nonneg[OF this step(1) step(7)] have c: "0 \<le> cpu_pct m" .
    from tick_Inr(5-8)[OF t] eq step(3-6)
    have d: "0 \<le> rd_rate m" "0 \<le> wr_rate m" "0 \<le> rx_rate m" "0 \<le> tx_rate m"
      by simp_all
    from Cons.IH[OF qs rest]
    have ih: "\<forall>m \<in> set (fst (main_loop q hs)).
           0 \<le> cpu_pct m \<and> 0 \<le> rd_rate m \<and> 0 \<le> wr_rate m \<and>
           0 \<le> rx_rate m \<and> 0 \<le> tx_rate m" .
    from t eq have "fst (main_loop prev (h # hs)) = m # fst (main_loop q hs)"
      by (simp add: split_beta)
    with c d ih show ?thesis by simp
  qed
qed

section \<open>The readers on the example inputs\<close>

lemma stat_1_eval: "read_cpu_times stat_1 = Inr (1000, 5000)"
  by (simp add: stat_1_def read_cpu_times_def py_eval)

lemma stat_2_eval: "read_cpu_times stat_2 = Inr (1200, 5800)"
  by (simp add: stat_2_def read_cpu_times_def py_eval)

lemma meminfo_1_eval: "read_mem_percent meminfo_1 = Inr 75"
  by (simp add: meminfo_1_def read_mem_percent_def py_eval)

lemma statvfs_1_eval: "read_disk_usage_percent statvfs_1 = Inr 50"
  by (simp add: statvfs_1_def read_disk_usage_percent_def py_eval)

lemma diskstats_1_eval: "read_disk_io diskstats_1 = Inr (2, 4)"
  by (simp add: diskstats_1_def read_disk_io_def disk_io_body_def py_eval)

lemma diskstats_2_eval: "read_disk_io diskstats_2 = Inr (3, 5)"
  by (simp add: diskstats_2_def read_disk_io_def disk_io_body_def py_eval)

lemma diskstats_reset_eval: "read_disk_io diskstats_reset = Inr (1, 2)"
  by (simp add: diskstats_reset_def read_disk_io_def disk_io_body_def py_eval)

lemma diskstats_two_sd_eval: "read_disk_io diskstats_two_sd = Inr (525 / 512, 75 / 256)"
  by (simp add: diskstats_two_sd_def read_disk_io_def disk_io_body_def py_eval)

lemma net_dev_1_eval: "read_net_dev net_dev_1 = Inr (8, 16)"
  by (simp add: net_dev_1_def read_net_dev_def net_dev_body_def py_eval)

lemma net_dev_2_eval: "read_net_dev net_dev_2 = Inr (10, 20)"
  by (simp add: net_dev_2_def read_net_dev_def net_dev_body_def py_eval)

lemma net_dev_reset_eval: "read_net_dev net_dev_reset = Inr (4, 8)"
  by (simp add: net_dev_reset_def read_net_dev_def net_dev_body_def py_eval)

lemma host_1_snapshot: "initial_snapshot host_1 = Inr prev_1"
  by (simp add: initial_snapshot_def host_1_def prev_1_def stat_1_eval diskstats_1_eval
      net_dev_1_eval and_then_def)

lemma host_2_snapshot:
  "initial_snapshot host_2 = Inr \<lparr>cpu_idle = 1200, cpu_total = 5800, disk_read = 3,
     disk_write = 5, net_rx = 10, net_tx = 20\<rparr>"
  by (simp add: initial_snapshot_def host_2_def stat_2_eval diskstats_2_eval net_dev_2_eval
      and_then_def)

lemma host_reset_snapshot:
  "initial_snapshot host_reset = Inr \<lparr>cpu_idle = 1200, cpu_total = 5800, disk_read = 1,
     disk_write = 2, net_rx = 4, net_tx = 8\<rparr>"
  by (simp add: initial_snapshot_def host_reset_def stat_2_eval diskstats_reset_eval
      net_dev_reset_eval and_then_def)

lemma host_2_tick:
  "tick host_2 prev_1 =
   Inr (\<lparr>cpu_pct = 75, ram_pct = 75, disk_pct = 50, rd_rate = 1, wr_rate = 1,
         rx_rate = 2, tx_rate = 4\<rparr>,
        \<lparr>cpu_idle = 1200, cpu_total = 5800, disk_read = 3, disk_write = 5,
         net_rx = 10, net_tx = 20\<rparr>)"
  by (simp add: tick_def host_2_def prev_1_def stat_2_eval meminfo_1_eval statvfs_1_eval
      diskstats_2_eval net_dev_2_eval cpu_utilization_def py_truediv_def and_then_def)

lemma host_reset_tick:
  "tick host_reset prev_1 =
   Inr (\<lparr>cpu_pct = 75, ram_pct = 75, disk_pct = 50, rd_rate = - 1, wr_rate = - 2,
         rx_rate = - 4, tx_rate = - 8\<rparr>,
        \<lparr>cpu_idle = 1200, cpu_total = 5800, disk_read = 1, disk_write = 2,
         net_rx = 4, net_tx = 8\<rparr>)"
  by (simp add: tick_def host_reset_def prev_1_def stat_2_eval meminfo_1_eval statvfs_1_eval
      diskstats_reset_eval net_dev_reset_eval cpu_utilization_def py_truediv_def and_then_def)

section \<open>CPU utilization\<close>

text \<open>
  C1. For every pair of consecutive CPU snapshots, a total-ticks delta of zero gives a
  CPU utilization of exactly 0, and the division of the idle delta by the total delta is
  never evaluated with a zero divisor: \<open>py_truediv\<close> would return ZeroDivisionError,
  and \<open>cpu_utilization\<close> never returns an error.
\<close>

theorem cpu_utilization_zero_delta:
  "(total1 - cpu_total prev = 0 \<longrightarrow> cpu_utilization prev idle1 total1 = Inr 0) \<and>
   (\<exists>pct. cpu_utilization prev idle1 total1 = Inr pct)"
  by (simp add: cpu_utilization_def py_truediv_def and_then_def Let_def)

text \<open>C1, at the snapshot \<open>prev_1\<close> and a reading with the same total and three more
  idle ticks.\<close>

theorem cpu_utilization_zero_delta_witness:
  "5000 - cpu_total prev_1 = 0 \<and> cpu_utilization prev_1 1003 5000 = Inr 0"
  using cpu_utilization_zero_delta [of 5000 prev_1 1003]
  by (simp add: prev_1_def)

text \<open>
  C7. For the snapshot pair prev = (idle 1000, total 5000) and curr = (idle 1200,
  total 5800) the CPU utilization is exactly 75 percent. The quotient 200/800, the
  difference 1 - 0.25 and the product 0.75 * 100 are all binary64 values, so the
  exact arithmetic of the model is the arithmetic of the program here.
\<close>

theorem cpu_utilization_example:
  "cpu_utilization \<lparr>cpu_idle = 1000, cpu_total = 5000, disk_read = rd, disk_write = wr,
                    net_rx = rx, net_tx = tx\<rparr> 1200 5800 = Inr 75"
  by (simp add: cpu_utilization_def py_truediv_def and_then_def)

text \<open>C7, with the disk and network fields of \<open>prev_1\<close>.\<close>

theorem cpu_utilization_example_witness:
  "cpu_utilization prev_1 1200 5800 = Inr 75"
  using cpu_utilization_example [of 2 4 8 16]
  by (simp add: prev_1_def)

section \<open>Rates\<close>

text \<open>
  C3. Take the start-up observation \<open>h0\<close> and the observations \<open>hs\<close> of the following
  iterations, and let \<open>ps\<close> be the snapshots they yield. If every counter field is
  non-decreasing from each snapshot to the next, and the idle ticks never grow by more
  than the total ticks, then on every line the loop prints the CPU percentage, the disk
  read and write rates and the network rx and tx rates are non-negative.
\<close>

theorem rates_nonneg:
  assumes "map initial_snapshot (h0 # hs) = map Inr ps"
    and "successively (\<lambda>p q. cpu_idle p \<le> cpu_idle q \<and> cpu_total p \<le> cpu_total q \<and>
            disk_read p \<le> disk_read q \<and> disk_write p \<le> disk_write q \<and>
            net_rx p \<le> net_rx q \<and> net_tx p \<le> net_tx q \<and>
            cpu_idle q - cpu_idle p \<le> cpu_total q - cpu_total p) ps"
  shows "\<forall>m \<in> set (fst (main h0 hs)).
           0 \<le> cpu_pct m \<and> 0 \<le> rd_rate m \<and> 0 \<le> wr_rate m \<and>
           0 \<le> rx_rate m \<and> 0 \<le> tx_rate m"
proof -
  from assms(1) obtain p0 qs where ps: "ps = p0 # qs"
    and p0: "initial_snapshot h0 = Inr p0" and qs: "map initial_snapshot hs = map Inr qs"
    by (cases ps) auto
  from main_loop_nonneg[OF qs] assms(2) ps p0 show ?thesis
    by (simp add: main_def)
qed

text \<open>C3, on \<open>host_1\<close> followed by \<open>host_2\<close>: one line is printed, and its rates are
  1, 1, 2 and 4.\<close>

theorem rates_nonneg_witness:
  "map initial_snapshot [host_1, host_2] = map Inr
      [\<lparr>cpu_idle = 1000, cpu_total = 5000, disk_read = 2, disk_write = 4,
        net_rx = 8, net_tx = 16\<rparr>,
       \<lparr>cpu_idle = 1200, cpu_total = 5800, disk_read = 3, disk_write = 5,
        net_rx = 10, net_tx = 20\<rparr>]
   \<and> fst (main host_1 [host_2]) =
       [\<lparr>cpu_pct = 75, ram_pct = 75, disk_pct = 50, rd_rate = 1, wr_rate = 1,
         rx_rate = 2, tx_rate = 4\<rparr>]
   \<and> 0 \<le> cpu_pct \<lparr>cpu_pct = 75, ram_pct = 75, disk_pct = 50, rd_rate = 1, wr_rate = 1,
                  rx_rate = 2, tx_rate = 4\<rparr>
   \<and> 0 \<le> rd_rate \<lparr>cpu_pct = 75, ram_pct = 75, disk_pct = 50, rd_rate = 1, wr_rate = 1,
                  rx_rate = 2, tx_rate = 4\<rparr>
   \<and> 0 \<le> wr_rate \<lparr>cpu_pct = 75, ram_pct = 75, disk_pct = 50, rd_rate = 1, wr_rate = 1,
                  rx_rate = 2, tx_rate = 4\<rparr>
   \<and> 0 \<le> rx_rate \<lparr>cpu_pct = 75, ram_pct = 75, disk_pct = 50, rd_rate = 1, wr_rate = 1,
                  rx_rate = 2, tx_rate = 4\<rparr>
   \<and> 0 \<le> tx_rate \<lparr>cpu_pct = 75, ram_pct = 75, disk_pct = 50, rd_rate = 1, wr_rate = 1,
                  rx_rate = 2, tx_rate = 4\<rparr>"
proof -
  have snaps: "map initial_snapshot [host_1, host_2] = map Inr
      [\<lparr>cpu_idle = 1000, cpu_total = 5000, disk_read = 2, disk_write = 4,
        net_rx = 8, net_tx = 16\<rparr>,
       \<lparr>cpu_idle = 1200, cpu_total = 5800, disk_read = 3, disk_write = 5,
        net_rx = 10, net_tx = 20\<rparr>]"
    by (simp add: host_1_snapshot host_2_snapshot prev_1_def)
  have mono: "successively (\<lambda>p q. cpu_idle p \<le> cpu_idle q \<and> cpu_total p \<le> cpu_total q \<and>
            disk_read p \<le> disk_read q \<and> disk_write p \<le> disk_write q \<and>
            net_rx p \<le> net_rx q \<and> net_tx p \<le> net_tx q \<and>
            cpu_idle q - cpu_idle p \<le> cpu_total q - cpu_total p)
      [\<lparr>cpu_idle = 1000, cpu_total = 5000, disk_read = 2, disk_write = 4,
        net_rx = 8, net_tx = 16\<rparr>,
       \<lparr>cpu_idle = 1200, cpu_total = 5800, disk_read = 3, disk_write = 5,
        net_rx = 10, net_tx = 20\<rparr>]"
    by simp
  have run: "fst (main host_1 [host_2]) =
       [\<lparr>cpu_pct = 75, ram_pct = 75, disk_pct = 50, rd_rate = 1, wr_rate = 1,
         rx_rate = 2, tx_rate = 4\<rparr>]"
    by (simp add: main_def host_1_snapshot host_2_tick)
  from rates_nonneg [OF snaps mono] run
  have "0 \<le> cpu_pct \<lparr>cpu_pct = 75, ram_pct = 75, disk_pct = 50, rd_rate = 1, wr_rate = 1,
                  rx_rate = 2, tx_rate = 4\<rparr>
   \<and> 0 \<le> rd_rate \<lparr>cpu_pct = 75, ram_pct = 75, disk_pct = 50, rd_rate = 1, wr_rate = 1,
                  rx_rate = 2, tx_rate = 4\<rparr>
   \<and> 0 \<le> wr_rate \<lparr>cpu_pct = 75, ram_pct = 75, disk_pct = 50, rd_rate = 1, wr_rate = 1,
                  rx_rate = 2, tx_rate = 4\<rparr>
   \<and> 0 \<le> rx_rate \<lparr>cpu_pct = 75, ram_pct = 75, disk_pct = 50, rd_rate = 1, wr_rate = 1,
                  rx_rate = 2, tx_rate = 4\<rparr>
   \<and> 0 \<le> tx_rate \<lparr>cpu_pct = 75, ram_pct = 75, disk_pct = 50, rd_rate = 1, wr_rate = 1,
                  rx_rate = 2, tx_rate = 4\<rparr>"
    by simp
  with snaps run show ?thesis by blast
qed

text \<open>
  C4 fails as stated. \<open>host_1\<close> holds 2 MB read, 4 MB written, 8 KB received and 16 KB
  sent; in \<open>host_reset\<close> the counters have rolled backward to 1, 2, 4 and 8. The line
  printed for \<open>host_reset\<close> carries the rates -1, -2, -4 and -8, not 0.
\<close>

theorem rate_clamp_counterexample:
  "initial_snapshot host_1 =
     Inr \<lparr>cpu_idle = 1000, cpu_total = 5000, disk_read = 2, disk_write = 4,
          net_rx = 8, net_tx = 16\<rparr> \<and>
   initial_snapshot host_reset =
     Inr \<lparr>cpu_idle = 1200, cpu_total = 5800, disk_read = 1, disk_write = 2,
          net_rx = 4, net_tx = 8\<rparr> \<and>
   main host_1 [host_reset] =
     ([\<lparr>cpu_pct = 75, ram_pct = 75, disk_pct = 50, rd_rate = - 1, wr_rate = - 2,
        rx_rate = - 4, tx_rate = - 8\<rparr>], None)"
  by (simp add: main_def host_1_snapshot [unfolded prev_1_def] host_reset_snapshot
      host_reset_tick [unfolded prev_1_def])

text \<open>
  C4, amended. An iteration reports each disk and network rate as the plain difference
  between the value just read and the value of the previous snapshot; nothing is
  clamped, so a counter that rolled backward is reported as a negative rate.
\<close>

theorem rates_are_plain_differences:
  assumes "tick h prev = Inr (m, prev')"
  shows "read_disk_io (proc_diskstats h) = Inr (disk_read prev', disk_write prev') \<and>
         read_net_dev (proc_net_dev h) = Inr (net_rx prev', net_tx prev') \<and>
         rd_rate m = disk_read prev' - disk_read prev \<and>
         wr_rate m = disk_write prev' - disk_write prev \<and>
         rx_rate m = net_rx prev' - net_rx prev \<and>
         tx_rate m = net_tx prev' - net_tx prev \<and>
         (disk_read prev' < disk_read prev \<longrightarrow> rd_rate m < 0) \<and>
         (disk_write prev' < disk_write prev \<longrightarrow> wr_rate m < 0) \<and>
         (net_rx prev' < net_rx prev \<longrightarrow> rx_rate m < 0) \<and>
         (net_tx prev' < net_tx prev \<longrightarrow> tx_rate m < 0)"
  using tick_Inr(2,3,5-8)[OF assms] by simp

text \<open>C4, amended, on \<open>host_reset\<close> after the snapshot \<open>prev_1\<close>: all four counters are
  below their previous values and all four rates are negative.\<close>

theorem rates_are_plain_differences_witness:
  "tick host_reset prev_1 =
     Inr (\<lparr>cpu_pct = 75, ram_pct = 75, disk_pct = 50, rd_rate = - 1, wr_rate = - 2,
           rx_rate = - 4, tx_rate = - 8\<rparr>,
          \<lparr>cpu_idle = 1200, cpu_total = 5800, disk_read = 1, disk_write = 2,
           net_rx = 4, net_tx = 8\<rparr>) \<and>
   read_disk_io (proc_diskstats host_reset) = Inr (1, 2) \<and>
   read_net_dev (proc_net_dev host_reset) = Inr (4, 8) \<and>
   1 < disk_read prev_1 \<and> 2 < disk_write prev_1 \<and> 4 < net_rx prev_1 \<and> 8 < net_tx prev_1 \<and>
   (- 1 :: rat) = 1 - disk_read prev_1 \<and> (- 2 :: rat) = 2 - disk_write prev_1 \<and>
   (- 4 :: rat) = 4 - net_rx prev_1 \<and> (- 8 :: rat) = 8 - net_tx prev_1 \<and>
   (- 1 :: rat) < 0 \<and> (- 2 :: rat) < 0 \<and> (- 4 :: rat) < 0 \<and> (- 8 :: rat) < 0"
  using rates_are_plain_differences [OF host_reset_tick] host_reset_tick
  by (simp add: prev_1_def)

section \<open>Gauges\<close>

text \<open>
  C2. With a reported total of zero the gauges are to return 0 percent. The code does
  not: lines 36 and 43 divide by the total without the test for zero that line 95
  applies to the CPU delta. A file system that reports no blocks and a memory file
  whose total is 0 both end in ZeroDivisionError.
\<close>

theorem gauges_zero_total_failing_input:
  "read_disk_usage_percent statvfs_zero = Inl ZeroDivisionError \<and>
   read_mem_percent meminfo_zero = Inl ZeroDivisionError"
  by (simp add: meminfo_zero_def statvfs_zero_def read_mem_percent_def
      read_disk_usage_percent_def py_eval)

section \<open>Parsers\<close>

text \<open>
  C5 fails as stated. On a \<^verbatim>\<open>loop0\<close> line and two \<^verbatim>\<open>sd\<close> lines with 100 and 2000
  sectors read (and 300 and 300 written), the read value returned is 525/512, that is
  2100 * 512 / 1024 ** 2 megabytes, and not the byte count 2100 * 512.
\<close>

theorem read_disk_io_bytes_counterexample:
  "read_disk_io diskstats_two_sd = Inr (525 / 512, 75 / 256) \<and>
   read_disk_io diskstats_two_sd \<noteq> Inr (2100 * 512, 600 * 512)"
  by (simp add: diskstats_two_sd_eval)

text \<open>
  C5, amended. On every file in which each line has at least three fields and each line
  whose device name starts with \<^verbatim>\<open>sd\<close>, \<^verbatim>\<open>nvme\<close> or \<^verbatim>\<open>hd\<close> has at least ten fields
  with integers in the sixth and the tenth, \<open>read_disk_io\<close> returns: its loop ends with
  the sums of the sixth and of the tenth fields over exactly these lines, and the two
  values returned are these sums converted at 512 bytes per sector to megabytes,
  sectors * 512 / 1024 ** 2. Lines with another device name, such as \<^verbatim>\<open>loop0\<close>,
  contribute nothing.
\<close>

theorem read_disk_io_sum:
  assumes "\<forall>l \<in> set diskstats. 2 < length (py_split l) \<and>
       (py_startswith (py_split l ! 2) [''sd'', ''nvme'', ''hd''] \<longrightarrow>
           9 < length (py_split l) \<and> (\<exists>r. py_int (py_split l ! 5) = Inr r) \<and>
           (\<exists>w. py_int (py_split l ! 9) = Inr w))"
  shows "for_each disk_io_body (0, 0) diskstats =
       Inr ((\<Sum>l \<leftarrow> filter (\<lambda>l. py_startswith (py_split l ! 2) [''sd'', ''nvme'', ''hd''])
                         diskstats. projr (py_int (py_split l ! 5))),
            (\<Sum>l \<leftarrow> filter (\<lambda>l. py_startswith (py_split l ! 2) [''sd'', ''nvme'', ''hd''])
                         diskstats. projr (py_int (py_split l ! 9)))) \<and>
     read_disk_io diskstats =
       Inr (of_int ((\<Sum>l \<leftarrow> filter (\<lambda>l. py_startswith (py_split l ! 2)
                                          [''sd'', ''nvme'', ''hd'']) diskstats.
                       projr (py_int (py_split l ! 5))) * 512) / 1024 ^ 2,
            of_int ((\<Sum>l \<leftarrow> filter (\<lambda>l. py_startswith (py_split l ! 2)
                                          [''sd'', ''nvme'', ''hd'']) diskstats.
                       projr (py_int (py_split l ! 9))) * 512) / 1024 ^ 2)"
proof -
  from for_each_disk_io_total[OF assms, of 0 0]
  have loop: "for_each disk_io_body (0, 0) diskstats =
       Inr ((\<Sum>l \<leftarrow> filter (\<lambda>l. py_startswith (py_split l ! 2) [''sd'', ''nvme'', ''hd''])
                         diskstats. projr (py_int (py_split l ! 5))),
            (\<Sum>l \<leftarrow> filter (\<lambda>l. py_startswith (py_split l ! 2) [''sd'', ''nvme'', ''hd''])
                         diskstats. projr (py_int (py_split l ! 9))))"
    by simp
  then show ?thesis
    by (simp add: read_disk_io_def and_then_def)
qed

text \<open>C5, amended, on \<open>diskstats_two_sd\<close> (100 + 2000 sectors read, 300 + 300 written)
  and on \<open>diskstats_three_dev\<close> (three allow-listed devices).\<close>

theorem read_disk_io_sum_witness:
  "filter (\<lambda>l. py_startswith (py_split l ! 2) [''sd'', ''nvme'', ''hd'']) diskstats_two_sd =
     [''   8       0 sda 40 3 100 25 10 2 300 9 0 30 34\<newline>'',
      ''   8      16 sdb 90 7 2000 80 20 4 300 18 0 90 98\<newline>''] \<and>
   for_each disk_io_body (0, 0) diskstats_two_sd = Inr (100 + 2000, 300 + 300) \<and>
   read_disk_io diskstats_two_sd =
     Inr (of_int (2100 * 512) / 1024 ^ 2, of_int (600 * 512) / 1024 ^ 2) \<and>
   filter (\<lambda>l. py_startswith (py_split l ! 2) [''sd'', ''nvme'', ''hd'']) diskstats_three_dev =
     [''   8       0 sda 40 3 100 25 10 2 300 9 0 30 34\<newline>'',
      ''   8      16 sdb 90 7 2000 80 20 4 300 18 0 90 98\<newline>'',
      '' 259       0 nvme0n1 70 1 1996 60 30 5 424 11 0 50 61\<newline>''] \<and>
   for_each disk_io_body (0, 0) diskstats_three_dev =
     Inr (100 + 2000 + 1996, 300 + 300 + 424) \<and>
   read_disk_io diskstats_three_dev = Inr (2, 1 / 2)"
proof -
  have wf: "\<forall>l \<in> set diskstats_two_sd. 2 < length (py_split l) \<and>
       (py_startswith (py_split l ! 2) [''sd'', ''nvme'', ''hd''] \<longrightarrow>
           9 < length (py_split l) \<and> (\<exists>r. py_int (py_split l ! 5) = Inr r) \<and>
           (\<exists>w. py_int (py_split l ! 9) = Inr w))"
    by (simp add: diskstats_two_sd_def py_eval)
  have sel: "filter (\<lambda>l. py_startswith (py_split l ! 2) [''sd'', ''nvme'', ''hd''])
       diskstats_two_sd =
     [''   8       0 sda 40 3 100 25 10 2 300 9 0 30 34\<newline>'',
      ''   8      16 sdb 90 7 2000 80 20 4 300 18 0 90 98\<newline>'']"
    by (simp add: diskstats_two_sd_def py_eval)
  have r2: "(\<Sum>l \<leftarrow> [''   8       0 sda 40 3 100 25 10 2 300 9 0 30 34\<newline>'',
      ''   8      16 sdb 90 7 2000 80 20 4 300 18 0 90 98\<newline>''].
        projr (py_int (py_split l ! 5))) = 2100"
    by (simp add: py_eval)
  have w2: "(\<Sum>l \<leftarrow> [''   8       0 sda 40 3 100 25 10 2 300 9 0 30 34\<newline>'',
      ''   8      16 sdb 90 7 2000 80 20 4 300 18 0 90 98\<newline>''].
        projr (py_int (py_split l ! 9))) = 600"
    by (simp add: py_eval)
  have wf3: "\<forall>l \<in> set diskstats_three_dev. 2 < length (py_split l) \<and>
       (py_startswith (py_split l ! 2) [''sd'', ''nvme'', ''hd''] \<longrightarrow>
           9 < length (py_split l) \<and> (\<exists>r. py_int (py_split l ! 5) = Inr r) \<and>
           (\<exists>w. py_int (py_split l ! 9) = Inr w))"
    by (simp add: diskstats_three_dev_def py_eval)
  have sel3: "filter (\<lambda>l. py_startswith (py_split l ! 2) [''sd'', ''nvme'', ''hd''])
       diskstats_three_dev =
     [''   8       0 sda 40 3 100 25 10 2 300 9 0 30 34\<newline>'',
      ''   8      16 sdb 90 7 2000 80 20 4 300 18 0 90 98\<newline>'',
      '' 259       0 nvme0n1 70 1 1996 60 30 5 424 11 0 50 61\<newline>'']"
    by (simp add: diskstats_three_dev_def py_eval)
  have r3: "(\<Sum>l \<leftarrow> [''   8       0 sda 40 3 100 25 10 2 300 9 0 30 34\<newline>'',
      ''   8      16 sdb 90 7 2000 80 20 4 300 18 0 90 98\<newline>'',
      '' 259       0 nvme0n1 70 1 1996 60 30 5 424 11 0 50 61\<newline>''].
        projr (py_int (py_split l ! 5))) = 4096"
    by (simp add: py_eval)
  have w3: "(\<Sum>l \<leftarrow> [''   8       0 sda 40 3 100 25 10 2 300 9 0 30 34\<newline>'',
      ''   8      16 sdb 90 7 2000 80 20 4 300 18 0 90 98\<newline>'',
      '' 259       0 nvme0n1 70 1 1996 60 30 5 424 11 0 50 61\<newline>''].
        projr (py_int (py_split l ! 9))) = 1024"
    by (simp add: py_eval)
  from read_disk_io_sum [OF wf, unfolded sel r2 w2]
  have two: "for_each disk_io_body (0, 0) diskstats_two_sd = Inr (100 + 2000, 300 + 300) \<and>
   read_disk_io diskstats_two_sd =
     Inr (of_int (2100 * 512) / 1024 ^ 2, of_int (600 * 512) / 1024 ^ 2)"
    by simp
  from read_disk_io_sum [OF wf3, unfolded sel3 r3 w3]
  have three: "for_each disk_io_body (0, 0) diskstats_three_dev =
     Inr (100 + 2000 + 1996, 300 + 300 + 424) \<and>
   read_disk_io diskstats_three_dev = Inr (2, 1 / 2)"
    by simp
  from sel sel3 two three show ?thesis by blast
qed

text \<open>
  C6 fails as stated. An \<^verbatim>\<open>sdb\<close> line cut after five fields makes \<open>read_disk_io\<close> raise
  IndexError, and an \<^verbatim>\<open>eth1\<close> line with a non-numeric field makes \<open>read_net_dev\<close>
  raise ValueError, although without that last line each file parses to the
  accumulation over the well-formed lines.
\<close>

theorem malformed_line_counterexample:
  "read_disk_io diskstats_short_line = Inl IndexError \<and>
   read_disk_io (butlast diskstats_short_line) = Inr (2, 4) \<and>
   read_net_dev net_dev_bad_field = Inl ValueError \<and>
   read_net_dev (butlast net_dev_bad_field) = Inr (8, 16)"
  by (simp add: diskstats_short_line_def net_dev_bad_field_def read_disk_io_def disk_io_body_def
      read_net_dev_def net_dev_body_def py_eval)

text \<open>
  C6, amended. A malformed line is not skipped: it makes the parser raise, and the
  iteration that called the parser raises with it. For the disk statistics this is any
  line with fewer than three fields, and any line with an allow-listed device name that
  has fewer than ten fields or no integer in its sixth or tenth field. For the network
  statistics this is, after the two header lines, any line without a colon, and any line
  of an interface other than \<^verbatim>\<open>lo\<close> that has fewer than nine fields after the colon or
  a field there that is no integer.
\<close>

theorem malformed_line_raises:
  "(dline \<in> set (proc_diskstats h) \<and>
     (length (py_split dline) < 3 \<or>
      (py_startswith (py_split dline ! 2) [''sd'', ''nvme'', ''hd''] \<and>
        (length (py_split dline) < 10 \<or> py_int (py_split dline ! 5) = Inl ValueError \<or>
         py_int (py_split dline ! 9) = Inl ValueError)))
    \<longrightarrow> (\<exists>e. read_disk_io (proc_diskstats h) = Inl e) \<and> (\<exists>e. tick h prev = Inl e)) \<and>
   (nline \<in> set (drop 2 (proc_net_dev h')) \<and>
     (CHR '':'' \<notin> set nline \<or>
      (py_strip (py_split_colon nline ! 0) \<noteq> ''lo'' \<and>
        (length (py_split (py_split_colon nline ! 1)) < 9 \<or>
         (\<exists>f \<in> set (py_split (py_split_colon nline ! 1)). py_int f = Inl ValueError))))
    \<longrightarrow> (\<exists>e. read_net_dev (proc_net_dev h') = Inl e) \<and> (\<exists>e. tick h' prev' = Inl e))"
proof (intro conjI impI)
  assume a: "dline \<in> set (proc_diskstats h) \<and>
     (length (py_split dline) < 3 \<or>
      (py_startswith (py_split dline ! 2) [''sd'', ''nvme'', ''hd''] \<and>
        (length (py_split dline) < 10 \<or> py_int (py_split dline ! 5) = Inl ValueError \<or>
         py_int (py_split dline ! 9) = Inl ValueError)))"
  then have mem: "dline \<in> set (proc_diskstats h)" by simp
  from a have "\<And>s. \<exists>e. disk_io_body s dline = Inl e"
    by (intro disk_io_body_fail) simp
  from read_disk_io_fail[OF mem this]
  show r: "\<exists>e. read_disk_io (proc_diskstats h) = Inl e" .
  then show "\<exists>e. tick h prev = Inl e" by (intro tick_fail) simp
next
  assume a: "nline \<in> set (drop 2 (proc_net_dev h')) \<and>
     (CHR '':'' \<notin> set nline \<or>
      (py_strip (py_split_colon nline ! 0) \<noteq> ''lo'' \<and>
        (length (py_split (py_split_colon nline ! 1)) < 9 \<or>
         (\<exists>f \<in> set (py_split (py_split_colon nline ! 1)). py_int f = Inl ValueError))))"
  then have mem: "nline \<in> set (drop 2 (proc_net_dev h'))" by simp
  from a have "\<And>s. \<exists>e. net_dev_body s nline = Inl e"
    by (intro net_dev_body_fail) simp
  from read_net_dev_fail[OF mem this]
  show r: "\<exists>e. read_net_dev (proc_net_dev h') = Inl e" .
  then show "\<exists>e. tick h' prev' = Inl e" by (intro tick_fail) simp
qed

text \<open>C6, amended, on \<open>host_malformed\<close>: its short \<^verbatim>\<open>sdb\<close> line and its \<^verbatim>\<open>eth1\<close> line
  with the field \<^verbatim>\<open>x\<close>.\<close>

theorem malformed_line_raises_witness:
  "''   8      16 sdb 90 7\<newline>'' \<in> set (proc_diskstats host_malformed) \<and>
   py_startswith (py_split ''   8      16 sdb 90 7\<newline>'' ! 2) [''sd'', ''nvme'', ''hd''] \<and>
   length (py_split ''   8      16 sdb 90 7\<newline>'') < 10 \<and>
   ''  eth1: 4096 x 0 0 0 0 0 0 8192 8 0 0 0 0 0 0\<newline>''
     \<in> set (drop 2 (proc_net_dev host_malformed)) \<and>
   py_strip (py_split_colon ''  eth1: 4096 x 0 0 0 0 0 0 8192 8 0 0 0 0 0 0\<newline>'' ! 0)
     \<noteq> ''lo'' \<and>
   ''x'' \<in> set (py_split
       (py_split_colon ''  eth1: 4096 x 0 0 0 0 0 0 8192 8 0 0 0 0 0 0\<newline>'' ! 1)) \<and>
   py_int ''x'' = Inl ValueError \<and>
   (\<exists>e. read_disk_io (proc_diskstats host_malformed) = Inl e) \<and>
   (\<exists>e. read_net_dev (proc_net_dev host_malformed) = Inl e) \<and>
   (\<exists>e. tick host_malformed prev_1 = Inl e)"
proof -
  have d: "''   8      16 sdb 90 7\<newline>'' \<in> set (proc_diskstats host_malformed)"
    "py_startswith (py_split ''   8      16 sdb 90 7\<newline>'' ! 2) [''sd'', ''nvme'', ''hd'']"
    "length (py_split ''   8      16 sdb 90 7\<newline>'') < 10"
    by (simp_all add: host_malformed_def diskstats_short_line_def py_eval)
  have n: "''  eth1: 4096 x 0 0 0 0 0 0 8192 8 0 0 0 0 0 0\<newline>''
       \<in> set (drop 2 (proc_net_dev host_malformed))"
    "py_strip (py_split_colon ''  eth1: 4096 x 0 0 0 0 0 0 8192 8 0 0 0 0 0 0\<newline>'' ! 0)
       \<noteq> ''lo''"
    "''x'' \<in> set (py_split
       (py_split_colon ''  eth1: 4096 x 0 0 0 0 0 0 8192 8 0 0 0 0 0 0\<newline>'' ! 1))"
    "py_int ''x'' = Inl ValueError"
    by (simp_all add: host_malformed_def net_dev_bad_field_def py_eval)
  from n(3,4) have n': "\<exists>f \<in> set (py_split
       (py_split_colon ''  eth1: 4096 x 0 0 0 0 0 0 8192 8 0 0 0 0 0 0\<newline>'' ! 1)).
     py_int f = Inl ValueError" by blast
  from d n(1,2) n' malformed_line_raises [of "''   8      16 sdb 90 7\<newline>''" host_malformed
    prev_1 "''  eth1: 4096 x 0 0 0 0 0 0 8192 8 0 0 0 0 0 0\<newline>''" host_malformed prev_1]
  have "(\<exists>e. read_disk_io (proc_diskstats host_malformed) = Inl e) \<and>
   (\<exists>e. read_net_dev (proc_net_dev host_malformed) = Inl e) \<and>
   (\<exists>e. tick host_malformed prev_1 = Inl e)"
    by blast
  with d n show ?thesis by blast
qed

text \<open>
  C9. \<open>read_net_dev\<close> skips the first two lines of the network statistics and leaves the
  loopback interface \<^verbatim>\<open>lo\<close> out of both sums; every other line contributes the first
  number after the colon to rx and the ninth to tx. This holds on every file in which
  each line after the first two has a colon and each line of an interface other than
  \<^verbatim>\<open>lo\<close> has at least nine fields after the colon, all of them integers: there the loop
  ends with exactly these sums, and the function returns them divided by 1024. What
  stands after the colon of a \<^verbatim>\<open>lo\<close> line is never read.
\<close>

theorem read_net_dev_sum:
  assumes "\<forall>l \<in> set (drop 2 net_dev). CHR '':'' \<in> set l \<and>
       (py_strip (py_split_colon l ! 0) \<noteq> ''lo'' \<longrightarrow>
           8 < length (py_split (py_split_colon l ! 1)) \<and>
           (\<forall>f \<in> set (py_split (py_split_colon l ! 1)). \<exists>v. py_int f = Inr v))"
  shows "for_each net_dev_body (0, 0) (drop 2 net_dev) =
       Inr ((\<Sum>l \<leftarrow> filter (\<lambda>l. py_strip (py_split_colon l ! 0) \<noteq> ''lo'') (drop 2 net_dev).
               projr (py_int (py_split (py_split_colon l ! 1) ! 0))),
            (\<Sum>l \<leftarrow> filter (\<lambda>l. py_strip (py_split_colon l ! 0) \<noteq> ''lo'') (drop 2 net_dev).
               projr (py_int (py_split (py_split_colon l ! 1) ! 8)))) \<and>
     read_net_dev net_dev =
       Inr (of_int (\<Sum>l \<leftarrow> filter (\<lambda>l. py_strip (py_split_colon l ! 0) \<noteq> ''lo'')
                                (drop 2 net_dev).
               projr (py_int (py_split (py_split_colon l ! 1) ! 0))) / 1024,
            of_int (\<Sum>l \<leftarrow> filter (\<lambda>l. py_strip (py_split_colon l ! 0) \<noteq> ''lo'')
                                (drop 2 net_dev).
               projr (py_int (py_split (py_split_colon l ! 1) ! 8))) / 1024)"
proof -
  from for_each_net_dev_total[OF assms, of 0 0]
  have loop: "for_each net_dev_body (0, 0) (drop 2 net_dev) =
       Inr ((\<Sum>l \<leftarrow> filter (\<lambda>l. py_strip (py_split_colon l ! 0) \<noteq> ''lo'') (drop 2 net_dev).
               projr (py_int (py_split (py_split_colon l ! 1) ! 0))),
            (\<Sum>l \<leftarrow> filter (\<lambda>l. py_strip (py_split_colon l ! 0) \<noteq> ''lo'') (drop 2 net_dev).
               projr (py_int (py_split (py_split_colon l ! 1) ! 8))))"
    by simp
  then show ?thesis
    by (simp add: read_net_dev_def and_then_def split_beta drop2_readline)
qed

text \<open>C9, on \<open>net_dev_three_if\<close>: after the two headers the three interfaces other than
  \<^verbatim>\<open>lo\<close> are selected, and the 500 bytes of \<^verbatim>\<open>lo\<close> are in neither sum.\<close>

theorem read_net_dev_sum_witness:
  "filter (\<lambda>l. py_strip (py_split_colon l ! 0) \<noteq> ''lo'') (drop 2 net_dev_three_if) =
     [''  eth0: 8192 10 0 0 0 0 0 0 16384 20 0 0 0 0 0 0\<newline>'',
      '' wlan0: 2048 3 0 0 0 0 0 0 1024 2 0 0 0 0 0 0\<newline>'',
      ''docker0: 1024 1 0 0 0 0 0 0 3072 4 0 0 0 0 0 0\<newline>''] \<and>
   for_each net_dev_body (0, 0) (drop 2 net_dev_three_if) =
     Inr (8192 + 2048 + 1024, 16384 + 1024 + 3072) \<and>
   read_net_dev net_dev_three_if = Inr (11, 20)"
proof -
  have wf: "\<forall>l \<in> set (drop 2 net_dev_three_if). CHR '':'' \<in> set l \<and>
       (py_strip (py_split_colon l ! 0) \<noteq> ''lo'' \<longrightarrow>
           8 < length (py_split (py_split_colon l ! 1)) \<and>
           (\<forall>f \<in> set (py_split (py_split_colon l ! 1)). \<exists>v. py_int f = Inr v))"
    by (simp add: net_dev_three_if_def py_eval)
  have sel: "filter (\<lambda>l. py_strip (py_split_colon l ! 0) \<noteq> ''lo'') (drop 2 net_dev_three_if) =
     [''  eth0: 8192 10 0 0 0 0 0 0 16384 20 0 0 0 0 0 0\<newline>'',
      '' wlan0: 2048 3 0 0 0 0 0 0 1024 2 0 0 0 0 0 0\<newline>'',
      ''docker0: 1024 1 0 0 0 0 0 0 3072 4 0 0 0 0 0 0\<newline>'']"
    by (simp add: net_dev_three_if_def py_eval)
  have s0: "(\<Sum>l \<leftarrow> [''  eth0: 8192 10 0 0 0 0 0 0 16384 20 0 0 0 0 0 0\<newline>'',
      '' wlan0: 2048 3 0 0 0 0 0 0 1024 2 0 0 0 0 0 0\<newline>'',
      ''docker0: 1024 1 0 0 0 0 0 0 3072 4 0 0 0 0 0 0\<newline>''].
        projr (py_int (py_split (py_split_colon l ! 1) ! 0))) = 11264"
    by (simp add: py_eval)
  have s8: "(\<Sum>l \<leftarrow> [''  eth0: 8192 10 0 0 0 0 0 0 16384 20 0 0 0 0 0 0\<newline>'',
      '' wlan0: 2048 3 0 0 0 0 0 0 1024 2 0 0 0 0 0 0\<newline>'',
      ''docker0: 1024 1 0 0 0 0 0 0 3072 4 0 0 0 0 0 0\<newline>''].
        projr (py_int (py_split (py_split_colon l ! 1) ! 8))) = 20480"
    by (simp add: py_eval)
  from read_net_dev_sum [OF wf, unfolded sel s0 s8]
  have "for_each net_dev_body (0, 0) (drop 2 net_dev_three_if) =
     Inr (8192 + 2048 + 1024, 16384 + 1024 + 3072) \<and>
   read_net_dev net_dev_three_if = Inr (11, 20)"
    by simp
  with sel show ?thesis by blast
qed

text \<open>
  C10. When the first line of the CPU statistics is a label followed by seven integer
  fields and any further fields, \<open>read_cpu_times\<close> returns as total the sum of exactly
  those seven values, so the further fields (steal, guest, guest_nice) are excluded, and
  as idle the fourth of the seven.
\<close>

theorem read_cpu_times_first_seven:
  assumes "py_split (fst (readline stat)) = label # fs @ extra"
    and "length fs = 7"
    and "map_int fs = Inr vals"
  shows "read_cpu_times stat = Inr (vals ! 3, sum_list vals) \<and> length vals = 7"
proof -
  from assms(1,2) have "take 7 (drop 1 (py_split (fst (readline stat)))) = fs" by simp
  moreover from map_int_length[OF assms(3)] assms(2) have len: "length vals = 7" by simp
  ultimately show ?thesis using assms(3)
    by (simp add: read_cpu_times_def and_then_def py_index_def)
qed

text \<open>C10, on \<open>stat_1\<close>, whose aggregate line ends in the three further fields 11, 22
  and 33: the total is 5000, not 5066.\<close>

theorem read_cpu_times_first_seven_witness:
  "py_split (fst (readline stat_1)) =
     ''cpu'' # [''2000'', ''0'', ''1000'', ''1000'', ''500'', ''300'', ''200'']
       @ [''11'', ''22'', ''33''] \<and>
   length [''2000'', ''0'', ''1000'', ''1000'', ''500'', ''300'', ''200''] = 7 \<and>
   map_int [''2000'', ''0'', ''1000'', ''1000'', ''500'', ''300'', ''200''] =
     Inr [2000, 0, 1000, 1000, 500, 300, 200] \<and>
   read_cpu_times stat_1 = Inr (1000, 5000)"
proof -
  have h: "py_split (fst (readline stat_1)) =
     ''cpu'' # [''2000'', ''0'', ''1000'', ''1000'', ''500'', ''300'', ''200'']
       @ [''11'', ''22'', ''33'']"
    "length [''2000'', ''0'', ''1000'', ''1000'', ''500'', ''300'', ''200''] = 7"
    "map_int [''2000'', ''0'', ''1000'', ''1000'', ''500'', ''300'', ''200''] =
     Inr [2000, 0, 1000, 1000, 500, 300, 200]"
    by (simp_all add: stat_1_def py_eval)
  from read_cpu_times_first_seven [OF h] h show ?thesis by simp
qed

section \<open>Truncation of the output line\<close>

text \<open>
  C8 fails as stated. The 89 code points of \<open>example_line\<close> exceed a reported width of 2
  and of 0 columns; truncation gives 91 code points for 2 columns and 89 for 0 columns,
  not 2 and 0.
\<close>

theorem truncate_line_counterexample:
  "length example_line = 89 \<and>
   length (truncate_line example_line (Some 2)) = 91 \<and>
   length (truncate_line example_line (Some 0)) = 89"
  by (simp add: example_line_def truncate_line_def py_slice_to_def)

text \<open>
  C8, amended. For a reported width of N columns with N at least 3, a line longer than
  N is replaced by its first N - 3 code points followed by the three dots, which has
  exactly N code points; for any N, a line of length at most N is left unchanged.
\<close>

theorem truncate_line_width:
  "(3 \<le> n \<and> n < int (length line) \<longrightarrow>
      truncate_line line (Some n) = take (nat (n - 3)) line @ map of_char ''...'' \<and>
      int (length (truncate_line line (Some n))) = n) \<and>
   (int (length line') \<le> n' \<longrightarrow> truncate_line line' (Some n') = line')"
  by (auto simp add: truncate_line_def py_slice_to_def)

text \<open>C8, amended, on \<open>example_line\<close> at 80 and at 100 columns.\<close>

theorem truncate_line_width_witness:
  "(3::int) \<le> 80 \<and> 80 < int (length example_line) \<and>
   truncate_line example_line (Some 80) = take 77 example_line @ map of_char ''...'' \<and>
   int (length (truncate_line example_line (Some 80))) = 80 \<and>
   int (length example_line) \<le> 100 \<and>
   truncate_line example_line (Some 100) = example_line"
proof -
  have h: "(3::int) \<le> 80 \<and> 80 < int (length example_line)"
    "int (length example_line) \<le> 100"
    by (simp_all add: example_line_def)
  from truncate_line_width [of 80 example_line example_line 100] h
  show ?thesis by simp
qed

end
